theory Spec2Isabelle
  imports Main "HOL-Library.Sublist"
begin

section \<open>The bootstrap scripts of the Mixamo downloader\<close>

text \<open>
  The repository's visible code is two variants of one start-up script: \<^verbatim>\<open>src/main.pyw\<close>
  (with a SIGINT handler, a wake-up timer and a forced exit) and an earlier variant
  (\<^verbatim>\<open>unnamed/part_000\<close>) that ends through \<^verbatim>\<open>sys.exit\<close>. Both only call into Qt and
  into the \<^verbatim>\<open>ui\<close> module, neither of which is part of the sources. The embedding
  therefore records every call the scripts make as an event of a trace, and takes what
  each Qt or \<^verbatim>\<open>ui\<close> call does (return, or raise) from an environment parameter.

  What the embedding fixes about Python and the system:
  \<^item> \<^verbatim>\<open>print\<close>, \<^verbatim>\<open>signal.signal\<close> (called from the main thread with a valid signal) and
    \<^verbatim>\<open>del\<close> return; \<^verbatim>\<open>os._exit\<close> does not return;
  \<^item> only \<^verbatim>\<open>signal.signal\<close> changes Python's table of signal handlers: what Qt does to
    signals inside its own calls is not part of the scripts;
  \<^item> a SIGINT is considered while the event loop runs, where the process spends its life;
  \<^item> an exit status is the integer handed to \<^verbatim>\<open>os._exit\<close> or carried by \<^verbatim>\<open>SystemExit\<close>.
\<close>

subsection \<open>Exceptions, signals, events\<close>

text \<open>
  The Python exceptions the scripts tell apart: \<^verbatim>\<open>KeyboardInterrupt\<close> (named by the
  handler of line 40), \<^verbatim>\<open>SystemExit\<close> (raised by \<^verbatim>\<open>sys.exit\<close>), and every other class,
  kept by its name.
\<close>

datatype exn = KeyboardInterrupt | SystemExit int | Exception string

text \<open>
  What Python's table of signal handlers holds for a signal number: the two constants of
  the \<^verbatim>\<open>signal\<close> module, the interpreter's own handler for SIGINT (which raises
  \<^verbatim>\<open>KeyboardInterrupt\<close>), or the function \<^verbatim>\<open>signal_handler\<close> of \<^verbatim>\<open>main.pyw\<close>.
\<close>

datatype disposition = SIG_DFL | SIG_IGN | Default_int_handler | Signal_handler

type_synonym signum = nat
type_synonym frame = nat

definition SIGINT :: signum where
  "SIGINT = 2"

datatype attribute = AA_ShareOpenGLContexts

text \<open>One event per call that leaves the script, in the order the calls are made.\<close>

datatype event =
    Call_signal signum disposition
  | Call_setAttribute attribute
  | Call_QApplication "string list"
  | Call_setQuitOnLastWindowClosed bool
  | Call_MixamoDownloaderUI
  | Call_show
  | Call_QTimer
  | Call_connect
  | Call_start nat
  | Call_exec
  | Call_print string
  | Call_hasattr string
  | Call_truth string
  | Call_getattr string
  | Call_deleteLater
  | Call_del string
  | Call_sys_exit int
  | Call_os_exit int

text \<open>
  How a process ends: \<^verbatim>\<open>os._exit(n)\<close> ends it at once, without interpreter shutdown;
  \<^verbatim>\<open>SystemExit\<close> reaching the top level, or the end of the script, ends it through the
  interpreter's normal shutdown; so does an uncaught exception, after its traceback; and
  a signal whose disposition is \<^verbatim>\<open>SIG_DFL\<close> kills the process.
\<close>

datatype ending =
    ForcedExit int
  | NormalExit int
  | Uncaught exn
  | KilledBySignal signum

primrec forced :: "ending \<Rightarrow> bool" where
  "forced (ForcedExit n) = True"
| "forced (NormalExit n) = False"
| "forced (Uncaught e) = False"
| "forced (KilledBySignal sg) = False"

text \<open>
  The exit status the script itself chooses. After an uncaught exception or a killing
  signal the status is the interpreter's or the system's choice, not the script's.
\<close>

primrec exit_status :: "ending \<Rightarrow> int option" where
  "exit_status (ForcedExit n) = Some n"
| "exit_status (NormalExit n) = Some n"
| "exit_status (Uncaught e) = None"
| "exit_status (KilledBySignal sg) = None"

subsection \<open>The process state and the statements of a script\<close>

record proc =
  trace :: "event list"
  sigtab :: "signum \<Rightarrow> disposition"

definition init :: "(signum \<Rightarrow> disposition) \<Rightarrow> proc" where
  "init h0 = \<lparr>trace = [], sigtab = h0\<rparr>"

text \<open>
  A statement returns a value, raises, or stops the process; it also leaves a new state.
\<close>

datatype 'a res = Done 'a | Raise exn | Stop ending

type_synonym 'a py = "proc \<Rightarrow> 'a res \<times> proc"

definition ret :: "'a \<Rightarrow> 'a py" where
  "ret a s = (Done a, s)"

definition raise :: "exn \<Rightarrow> 'a py" where
  "raise e s = (Raise e, s)"

definition bind_py :: "'a py \<Rightarrow> ('a \<Rightarrow> 'b py) \<Rightarrow> 'b py" where
  "bind_py m f s =
     (case m s of
        (Done a, s') \<Rightarrow> f a s'
      | (Raise e, s') \<Rightarrow> (Raise e, s')
      | (Stop t, s') \<Rightarrow> (Stop t, s'))"

definition then_py :: "unit py \<Rightarrow> 'b py \<Rightarrow> 'b py" where
  "then_py m k = bind_py m (\<lambda>_. k)"

text \<open>A block of statements, run in order; the first that raises or stops ends it.\<close>

primrec block :: "unit py list \<Rightarrow> unit py" where
  "block [] = ret ()"
| "block (m # ms) = then_py m (block ms)"

text \<open>
  \<^verbatim>\<open>try: m except E: h\<close>, with the class \<^verbatim>\<open>E\<close> as a predicate. An exception outside
  \<^verbatim>\<open>E\<close> propagates; a stopped process stays stopped.
\<close>

definition try_except :: "'a py \<Rightarrow> (exn \<Rightarrow> bool) \<Rightarrow> 'a py \<Rightarrow> 'a py" where
  "try_except m E h s =
     (case m s of
        (Raise e, s') \<Rightarrow> if E e then h s' else (Raise e, s')
      | r \<Rightarrow> r)"

definition is_KeyboardInterrupt :: "exn \<Rightarrow> bool" where
  "is_KeyboardInterrupt e = (e = KeyboardInterrupt)"

text \<open>A bare \<^verbatim>\<open>except:\<close> matches every exception.\<close>

definition any_exception :: "exn \<Rightarrow> bool" where
  "any_exception e = True"

definition emit :: "event \<Rightarrow> proc \<Rightarrow> proc" where
  "emit ev s = s\<lparr>trace := trace s @ [ev]\<rparr>"

text \<open>A call into Qt or \<^verbatim>\<open>ui\<close>: the event, then what the environment says it does.\<close>

datatype 'a outcome = Returns 'a | Raises exn

definition call :: "event \<Rightarrow> 'a outcome \<Rightarrow> 'a py" where
  "call ev oc s = (case oc of Returns a \<Rightarrow> (Done a, emit ev s) | Raises e \<Rightarrow> (Raise e, emit ev s))"

subsection \<open>The standard-library calls\<close>

definition print :: "string \<Rightarrow> unit py" where
  "print msg s = (Done (), emit (Call_print msg) s)"

definition os_exit :: "int \<Rightarrow> 'a py" where
  "os_exit n s = (Stop (ForcedExit n), emit (Call_os_exit n) s)"

definition sys_exit :: "int \<Rightarrow> 'a py" where
  "sys_exit n s = (Raise (SystemExit n), emit (Call_sys_exit n) s)"

definition signal_signal :: "signum \<Rightarrow> disposition \<Rightarrow> unit py" where
  "signal_signal sg h s = (Done (), (emit (Call_signal sg h) s)\<lparr>sigtab := (sigtab s)(sg := h)\<rparr>)"

definition del :: "string \<Rightarrow> unit py" where
  "del name s = (Done (), emit (Call_del name) s)"

subsection \<open>\<^verbatim>\<open>signal_handler\<close> (main.pyw, lines 11 to 15)\<close>

definition interrupt_message :: string where
  "interrupt_message = [CHR 0x0A, CHR 0x0A] @ ''Received interrupt signal, forcing exit...''"

definition signal_handler :: "signum \<Rightarrow> frame \<Rightarrow> unit py" where
  "signal_handler sg fr = then_py (print interrupt_message) (os_exit 0)"

subsection \<open>The environment: what Qt and the \<^verbatim>\<open>ui\<close> module do\<close>

text \<open>
  What \<^verbatim>\<open>app.exec_()\<close> does. It returns the loop's exit code, or an exception leaves it,
  or SIGINT arrives while it runs: then Python calls the handler its table holds for
  SIGINT (the timer of lines 33 to 35 wakes the interpreter for that), and if the handler
  returns the loop goes on.
\<close>

datatype loop_outcome =
    LoopReturns int
  | LoopRaises exn
  | LoopSigint frame loop_outcome

text \<open>
  One field per call into Qt or \<^verbatim>\<open>ui\<close>. \<^verbatim>\<open>QApplication\<close> is given \<^verbatim>\<open>sys.argv\<close>, so what it
  does may depend on that list. The last four fields are the steps of the cleanup of
  lines 46 and 47: \<^verbatim>\<open>hasattr(md, 'browser')\<close>, the truth of \<^verbatim>\<open>md.browser\<close>, the second
  read of \<^verbatim>\<open>md.browser\<close>, and \<^verbatim>\<open>deleteLater()\<close>.
\<close>

record qt_env =
  setAttribute_result :: "unit outcome"
  QApplication_result :: "string list \<Rightarrow> unit outcome"
  setQuitOnLastWindowClosed_result :: "unit outcome"
  MixamoDownloaderUI_result :: "unit outcome"
  show_result :: "unit outcome"
  QTimer_result :: "unit outcome"
  connect_result :: "unit outcome"
  start_result :: "unit outcome"
  exec_result :: loop_outcome
  hasattr_browser :: "bool outcome"
  browser_truth :: "bool outcome"
  browser_result :: "unit outcome"
  deleteLater_result :: "unit outcome"

text \<open>
  The event loop. A SIGINT is dispatched on the table of handlers as it stands when the
  signal arrives.
\<close>

primrec run_loop :: "loop_outcome \<Rightarrow> int py" where
  "run_loop (LoopReturns n) = ret n"
| "run_loop (LoopRaises e) = raise e"
| "run_loop (LoopSigint fr rest) = (\<lambda>s.
     case sigtab s SIGINT of
       Signal_handler \<Rightarrow> bind_py (signal_handler SIGINT fr) (\<lambda>_. run_loop rest) s
     | Default_int_handler \<Rightarrow> raise KeyboardInterrupt s
     | SIG_IGN \<Rightarrow> run_loop rest s
     | SIG_DFL \<Rightarrow> (Stop (KilledBySignal SIGINT), s))"

definition app_exec :: "qt_env \<Rightarrow> int py" where
  "app_exec env s = run_loop (exec_result env) (emit Call_exec s)"

subsection \<open>The script \<^verbatim>\<open>main.pyw\<close> (lines 18 to 52)\<close>

definition keyboard_message :: string where
  "keyboard_message = [CHR 0x0A, CHR 0x0A] @ ''Keyboard interrupt, exiting...''"

text \<open>Lines 20 to 35: everything before the event loop.\<close>

definition bootstrap :: "string list \<Rightarrow> qt_env \<Rightarrow> unit py" where
  "bootstrap argv env = block
     [signal_signal SIGINT Signal_handler,
      call (Call_setAttribute AA_ShareOpenGLContexts) (setAttribute_result env),
      call (Call_QApplication argv) (QApplication_result env argv),
      call (Call_setQuitOnLastWindowClosed True) (setQuitOnLastWindowClosed_result env),
      call Call_MixamoDownloaderUI (MixamoDownloaderUI_result env),
      call Call_show (show_result env),
      call Call_QTimer (QTimer_result env),
      call Call_connect (connect_result env),
      call (Call_start 100) (start_result env)]"

text \<open>Lines 38 to 42: the loop, and the handler of \<^verbatim>\<open>KeyboardInterrupt\<close> only.\<close>

definition event_loop :: "qt_env \<Rightarrow> int py" where
  "event_loop env =
     try_except (app_exec env) is_KeyboardInterrupt
       (bind_py (print keyboard_message) (\<lambda>_. ret 0))"

text \<open>
  Lines 46 and 47. \<^verbatim>\<open>and\<close> reads \<^verbatim>\<open>md.browser\<close> only when \<^verbatim>\<open>hasattr\<close> gave true, and the
  body runs only when both are true.
\<close>

definition cleanup :: "qt_env \<Rightarrow> unit py" where
  "cleanup env =
     bind_py (call (Call_hasattr ''browser'') (hasattr_browser env)) (\<lambda>has.
       if \<not> has then ret ()
       else bind_py (call (Call_truth ''browser'') (browser_truth env)) (\<lambda>truthy.
         if \<not> truthy then ret ()
         else block
           [call (Call_getattr ''browser'') (browser_result env),
            call Call_deleteLater (deleteLater_result env)]))"

text \<open>Lines 45 to 52: the cleanup under a bare \<^verbatim>\<open>except\<close>, then the forced exit.\<close>

definition post_loop :: "qt_env \<Rightarrow> int \<Rightarrow> unit py" where
  "post_loop env exit_code =
     then_py (try_except (cleanup env) any_exception (ret ())) (os_exit exit_code)"

definition main_pyw :: "string list \<Rightarrow> qt_env \<Rightarrow> unit py" where
  "main_pyw argv env =
     then_py (bootstrap argv env)
       (bind_py (event_loop env) (\<lambda>exit_code. post_loop env exit_code))"

subsection \<open>The earlier variant (\<^verbatim>\<open>unnamed/part_000\<close>, lines 9 to 28)\<close>

definition part_000 :: "string list \<Rightarrow> qt_env \<Rightarrow> unit py" where
  "part_000 argv env =
     then_py (block
       [call (Call_setAttribute AA_ShareOpenGLContexts) (setAttribute_result env),
        call (Call_QApplication argv) (QApplication_result env argv),
        call (Call_setQuitOnLastWindowClosed True) (setQuitOnLastWindowClosed_result env),
        call Call_MixamoDownloaderUI (MixamoDownloaderUI_result env),
        call Call_show (show_result env)])
       (bind_py (app_exec env) (\<lambda>exit_code.
          block [del ''md'', del ''app'', sys_exit exit_code]))"

subsection \<open>Running a script as a process\<close>

text \<open>
  The interpreter runs the script from a fresh trace. If the script runs to its end the
  interpreter shuts down with status 0; \<^verbatim>\<open>SystemExit(n)\<close> at the top level shuts it down
  with status \<open>n\<close>; any other exception at the top level is uncaught.
\<close>

definition run_script :: "unit py \<Rightarrow> (signum \<Rightarrow> disposition) \<Rightarrow> ending \<times> proc" where
  "run_script m h0 =
     (case m (init h0) of
        (Done u, s) \<Rightarrow> (NormalExit 0, s)
      | (Raise (SystemExit n), s) \<Rightarrow> (NormalExit n, s)
      | (Raise e, s) \<Rightarrow> (Uncaught e, s)
      | (Stop t, s) \<Rightarrow> (t, s))"

definition run_main :: "string list \<Rightarrow> qt_env \<Rightarrow> (signum \<Rightarrow> disposition) \<Rightarrow> ending \<times> proc" where
  "run_main argv env h0 = run_script (main_pyw argv env) h0"

definition run_part_000 :: "string list \<Rightarrow> qt_env \<Rightarrow> (signum \<Rightarrow> disposition) \<Rightarrow> ending \<times> proc" where
  "run_part_000 argv env h0 = run_script (part_000 argv env) h0"

text \<open>The handlers of a fresh interpreter: its own handler for SIGINT, the default elsewhere.\<close>

definition fresh_sigtab :: "signum \<Rightarrow> disposition" where
  "fresh_sigtab sg = (if sg = SIGINT then Default_int_handler else SIG_DFL)"

subsection \<open>Environments and observations used in the statements\<close>

text \<open>Every call before the event loop returns.\<close>

definition bootstrap_ok :: "string list \<Rightarrow> qt_env \<Rightarrow> bool" where
  "bootstrap_ok argv env =
     (setAttribute_result env = Returns () \<and>
      QApplication_result env argv = Returns () \<and>
      setQuitOnLastWindowClosed_result env = Returns () \<and>
      MixamoDownloaderUI_result env = Returns () \<and>
      show_result env = Returns () \<and>
      QTimer_result env = Returns () \<and>
      connect_result env = Returns () \<and>
      start_result env = Returns ())"

text \<open>
  An environment in which every call returns, the loop ends with the given outcome, and
  the window has a browser that is truthy.
\<close>

definition plain_env :: "loop_outcome \<Rightarrow> qt_env" where
  "plain_env lo =
     \<lparr>setAttribute_result = Returns (),
      QApplication_result = (\<lambda>argv. Returns ()),
      setQuitOnLastWindowClosed_result = Returns (),
      MixamoDownloaderUI_result = Returns (),
      show_result = Returns (),
      QTimer_result = Returns (),
      connect_result = Returns (),
      start_result = Returns (),
      exec_result = lo,
      hasattr_browser = Returns True,
      browser_truth = Returns True,
      browser_result = Returns (),
      deleteLater_result = Returns ()\<rparr>"

text \<open>
  The calls of a run that reaches the event loop, in the order of lines 20 to 39.
\<close>

definition startup_events :: "string list \<Rightarrow> event list" where
  "startup_events argv =
     [Call_signal SIGINT Signal_handler,
      Call_setAttribute AA_ShareOpenGLContexts,
      Call_QApplication argv,
      Call_setQuitOnLastWindowClosed True,
      Call_MixamoDownloaderUI,
      Call_show,
      Call_QTimer,
      Call_connect,
      Call_start 100,
      Call_exec]"

text \<open>
  The outcomes of the calls before the loop, in call order, and the position and
  exception of the first of them that raises.
\<close>

definition bootstrap_outcomes :: "string list \<Rightarrow> qt_env \<Rightarrow> unit outcome list" where
  "bootstrap_outcomes argv env =
     [setAttribute_result env, QApplication_result env argv,
      setQuitOnLastWindowClosed_result env, MixamoDownloaderUI_result env,
      show_result env, QTimer_result env, connect_result env, start_result env]"

fun first_raise :: "unit outcome list \<Rightarrow> (nat \<times> exn) option" where
  "first_raise [] = None"
| "first_raise (Returns u # ocs) = map_option (\<lambda>(k, e). (Suc k, e)) (first_raise ocs)"
| "first_raise (Raises e # ocs) = Some (0, e)"

definition extend :: "proc \<Rightarrow> event list \<Rightarrow> proc" where
  "extend s evs = s\<lparr>trace := trace s @ evs, sigtab := (sigtab s)(SIGINT := Signal_handler)\<rparr>"

text \<open>The events the cleanup of lines 46 and 47 adds: its trace from an empty one.\<close>

definition cleanup_events :: "qt_env \<Rightarrow> event list" where
  "cleanup_events env = trace (snd (cleanup env (init fresh_sigtab)))"

text \<open>
  \<^term>\<open>before a b tr\<close>: in \<open>tr\<close>, no \<open>b\<close> stands ahead of the first \<open>a\<close>. So when \<open>b\<close>
  occurs in \<open>tr\<close>, an \<open>a\<close> occurs earlier.
\<close>

fun before :: "event \<Rightarrow> event \<Rightarrow> event list \<Rightarrow> bool" where
  "before a b [] = True"
| "before a b (x # xs) = (if x = a then True else x \<noteq> b \<and> before a b xs)"

text \<open>The events that change the table of signal handlers.\<close>

primrec installs_handler :: "event \<Rightarrow> bool" where
  "installs_handler (Call_signal sg h) = True"
| "installs_handler (Call_setAttribute a) = False"
| "installs_handler (Call_QApplication argv) = False"
| "installs_handler (Call_setQuitOnLastWindowClosed b) = False"
| "installs_handler Call_MixamoDownloaderUI = False"
| "installs_handler Call_show = False"
| "installs_handler Call_QTimer = False"
| "installs_handler Call_connect = False"
| "installs_handler (Call_start ms) = False"
| "installs_handler Call_exec = False"
| "installs_handler (Call_print msg) = False"
| "installs_handler (Call_hasattr name) = False"
| "installs_handler (Call_truth name) = False"
| "installs_handler (Call_getattr name) = False"
| "installs_handler Call_deleteLater = False"
| "installs_handler (Call_del name) = False"
| "installs_handler (Call_sys_exit n) = False"
| "installs_handler (Call_os_exit n) = False"

text \<open>An event with the argument vector it carries, if any, blanked.\<close>

definition erase_argv :: "event \<Rightarrow> event" where
  "erase_argv ev = (case ev of Call_QApplication argv \<Rightarrow> Call_QApplication [] | _ \<Rightarrow> ev)"

text \<open>
  The steps the two variants have in common: the attribute, the application object, the
  quit-on-last-window flag, the window and its display, and the event loop.
\<close>

primrec shared_step :: "event \<Rightarrow> bool" where
  "shared_step (Call_signal sg h) = False"
| "shared_step (Call_setAttribute a) = True"
| "shared_step (Call_QApplication argv) = True"
| "shared_step (Call_setQuitOnLastWindowClosed b) = True"
| "shared_step Call_MixamoDownloaderUI = True"
| "shared_step Call_show = True"
| "shared_step Call_QTimer = False"
| "shared_step Call_connect = False"
| "shared_step (Call_start ms) = False"
| "shared_step Call_exec = True"
| "shared_step (Call_print msg) = False"
| "shared_step (Call_hasattr name) = False"
| "shared_step (Call_truth name) = False"
| "shared_step (Call_getattr name) = False"
| "shared_step Call_deleteLater = False"
| "shared_step (Call_del name) = False"
| "shared_step (Call_sys_exit n) = False"
| "shared_step (Call_os_exit n) = False"

definition shared_events :: "string list \<Rightarrow> event list" where
  "shared_events argv =
     [Call_setAttribute AA_ShareOpenGLContexts,
      Call_QApplication argv,
      Call_setQuitOnLastWindowClosed True,
      Call_MixamoDownloaderUI,
      Call_show,
      Call_exec]"

text \<open>Environments of the examples: a start-up name, and a window whose browser is gone.\<close>

definition script_name :: "string list" where
  "script_name = [''main.pyw'']"

definition stale_browser_env :: "loop_outcome \<Rightarrow> qt_env" where
  "stale_browser_env lo = (plain_env lo)\<lparr>deleteLater_result := Raises (Exception ''RuntimeError'')\<rparr>"

definition broken_window_env :: "loop_outcome \<Rightarrow> qt_env" where
  "broken_window_env lo =
     (plain_env lo)\<lparr>MixamoDownloaderUI_result := Raises (Exception ''RuntimeError'')\<rparr>"

section \<open>Properties\<close>

subsection \<open>What a run of \<^verbatim>\<open>main.pyw\<close> is, case by case\<close>

lemma then_call:
  "then_py (call ev oc) m s = (case oc of Returns u \<Rightarrow> m (emit ev s) | Raises e \<Rightarrow> (Raise e, emit ev s))"
  by (simp add: then_py_def bind_py_def call_def split: outcome.splits)

lemma then_signal:
  "then_py (signal_signal sg h) m s = m ((emit (Call_signal sg h) s)\<lparr>sigtab := (sigtab s)(sg := h)\<rparr>)"
  by (simp add: then_py_def bind_py_def signal_signal_def)

lemma bootstrap_eq:
  "bootstrap argv env s =
     (case first_raise (bootstrap_outcomes argv env) of
        None \<Rightarrow> (Done (), extend s (take 9 (startup_events argv)))
      | Some (k, e) \<Rightarrow> (Raise e, extend s (take (Suc (Suc k)) (startup_events argv))))"
  by (simp add: bootstrap_def then_call then_signal ret_def emit_def extend_def
      bootstrap_outcomes_def startup_events_def split: outcome.splits)

lemma bind_call:
  "bind_py (call ev oc) f s = (case oc of Returns a \<Rightarrow> f a (emit ev s) | Raises e \<Rightarrow> (Raise e, emit ev s))"
  by (simp add: bind_py_def call_def split: outcome.splits)

lemma cleanup_eq:
  "try_except (cleanup env) any_exception (ret ()) s = (Done (), s\<lparr>trace := trace s @ cleanup_events env\<rparr>)"
  by (simp add: try_except_def cleanup_def cleanup_events_def bind_call then_call call_def
      any_exception_def ret_def emit_def init_def split: outcome.splits)

lemma post_loop_eq:
  "post_loop env c s = (Stop (ForcedExit c), s\<lparr>trace := trace s @ cleanup_events env @ [Call_os_exit c]\<rparr>)"
  by (simp add: post_loop_def then_py_def bind_py_def cleanup_eq os_exit_def emit_def)

lemma event_loop_eq:
  "sigtab s SIGINT = Signal_handler \<Longrightarrow> event_loop env s =
     (case exec_result env of
        LoopReturns n \<Rightarrow> (Done n, emit Call_exec s)
      | LoopRaises e \<Rightarrow>
          if e = KeyboardInterrupt
          then (Done 0, s\<lparr>trace := trace s @ [Call_exec, Call_print keyboard_message]\<rparr>)
          else (Raise e, emit Call_exec s)
      | LoopSigint fr rest \<Rightarrow>
          (Stop (ForcedExit 0),
           s\<lparr>trace := trace s @ [Call_exec, Call_print interrupt_message, Call_os_exit 0]\<rparr>))"
  by (simp add: event_loop_def try_except_def app_exec_def ret_def raise_def
      is_KeyboardInterrupt_def bind_py_def print_def emit_def signal_handler_def then_py_def
      os_exit_def split: loop_outcome.splits)

lemma run_main_eq:
  "run_main argv env h0 =
     (case first_raise (bootstrap_outcomes argv env) of
        Some (k, e) \<Rightarrow>
          (case e of SystemExit n \<Rightarrow> NormalExit n | _ \<Rightarrow> Uncaught e,
           \<lparr>trace = take (Suc (Suc k)) (startup_events argv), sigtab = h0(SIGINT := Signal_handler)\<rparr>)
      | None \<Rightarrow>
          (case exec_result env of
             LoopReturns n \<Rightarrow>
               (ForcedExit n,
                \<lparr>trace = startup_events argv @ cleanup_events env @ [Call_os_exit n],
                 sigtab = h0(SIGINT := Signal_handler)\<rparr>)
           | LoopRaises e \<Rightarrow>
               if e = KeyboardInterrupt
               then (ForcedExit 0,
                 \<lparr>trace = startup_events argv @ [Call_print keyboard_message] @
                    cleanup_events env @ [Call_os_exit 0],
                  sigtab = h0(SIGINT := Signal_handler)\<rparr>)
               else (case e of SystemExit n \<Rightarrow> NormalExit n | _ \<Rightarrow> Uncaught e,
                 \<lparr>trace = startup_events argv, sigtab = h0(SIGINT := Signal_handler)\<rparr>)
           | LoopSigint fr rest \<Rightarrow>
               (ForcedExit 0,
                \<lparr>trace = startup_events argv @ [Call_print interrupt_message, Call_os_exit 0],
                 sigtab = h0(SIGINT := Signal_handler)\<rparr>)))"
proof (cases "first_raise (bootstrap_outcomes argv env)")
  case None
  then have b: "bootstrap argv env (init h0) = (Done (), extend (init h0) (take 9 (startup_events argv)))"
    by (simp add: bootstrap_eq)
  have sg: "sigtab (extend (init h0) (take 9 (startup_events argv))) SIGINT = Signal_handler"
    by (simp add: extend_def)
  have m: "main_pyw argv env (init h0) =
      bind_py (event_loop env) (post_loop env) (extend (init h0) (take 9 (startup_events argv)))"
    by (simp add: main_pyw_def then_py_def bind_py_def b)
  have r: "main_pyw argv env (init h0) =
      (case exec_result env of
         LoopReturns n \<Rightarrow> post_loop env n (emit Call_exec (extend (init h0) (take 9 (startup_events argv))))
       | LoopRaises e \<Rightarrow>
           if e = KeyboardInterrupt
           then post_loop env 0 ((extend (init h0) (take 9 (startup_events argv)))
             \<lparr>trace := trace (extend (init h0) (take 9 (startup_events argv))) @
                [Call_exec, Call_print keyboard_message]\<rparr>)
           else (Raise e, emit Call_exec (extend (init h0) (take 9 (startup_events argv))))
       | LoopSigint fr rest \<Rightarrow>
           (Stop (ForcedExit 0), (extend (init h0) (take 9 (startup_events argv)))
             \<lparr>trace := trace (extend (init h0) (take 9 (startup_events argv))) @
                [Call_exec, Call_print interrupt_message, Call_os_exit 0]\<rparr>))"
    unfolding m by (simp add: bind_py_def event_loop_eq [OF sg] split: loop_outcome.splits)
  show ?thesis
    unfolding run_main_def run_script_def r
    using None
    by (simp add: post_loop_eq extend_def init_def emit_def startup_events_def
        split: loop_outcome.splits exn.splits)
next
  case (Some p)
  then obtain k e where p: "first_raise (bootstrap_outcomes argv env) = Some (k, e)"
    by (cases p) simp
  have m: "main_pyw argv env (init h0) =
      (Raise e, extend (init h0) (take (Suc (Suc k)) (startup_events argv)))"
    by (simp add: main_pyw_def then_py_def bind_py_def bootstrap_eq p)
  show ?thesis
    unfolding run_main_def run_script_def m
    by (simp add: p extend_def init_def split: exn.splits)
qed


lemma cleanup_events_eq:
  "cleanup_events env =
     (case hasattr_browser env of
        Raises e \<Rightarrow> [Call_hasattr ''browser'']
      | Returns has \<Rightarrow>
          if \<not> has then [Call_hasattr ''browser'']
          else (case browser_truth env of
            Raises e \<Rightarrow> [Call_hasattr ''browser'', Call_truth ''browser'']
          | Returns truthy \<Rightarrow>
              if \<not> truthy then [Call_hasattr ''browser'', Call_truth ''browser'']
              else (case browser_result env of
                Raises e \<Rightarrow>
                  [Call_hasattr ''browser'', Call_truth ''browser'', Call_getattr ''browser'']
              | Returns u \<Rightarrow>
                  [Call_hasattr ''browser'', Call_truth ''browser'', Call_getattr ''browser'',
                   Call_deleteLater])))"
  by (simp add: cleanup_events_def cleanup_def bind_call then_call call_def ret_def emit_def
      init_def split: outcome.splits)

lemma cleanup_events_no_handler: "filter installs_handler (cleanup_events env) = []"
  by (simp add: cleanup_events_eq split: outcome.splits)

lemma cleanup_events_not_shared: "filter shared_step (cleanup_events env) = []"
  by (simp add: cleanup_events_eq split: outcome.splits)

lemma cleanup_events_no_argv: "Call_QApplication a \<notin> set (cleanup_events env)"
  by (simp add: cleanup_events_eq split: outcome.splits)

lemma first_raise_None: "(first_raise ocs = None) = (\<forall>oc \<in> set ocs. oc = Returns ())"
  by (induction ocs rule: first_raise.induct) auto

lemma bootstrap_ok_iff:
  "bootstrap_ok argv env = (first_raise (bootstrap_outcomes argv env) = None)"
  by (simp add: first_raise_None bootstrap_ok_def bootstrap_outcomes_def)

lemma outcomes_cong:
  "QApplication_result env argv1 = QApplication_result env argv2 \<Longrightarrow>
   bootstrap_outcomes argv1 env = bootstrap_outcomes argv2 env"
  by (simp add: bootstrap_outcomes_def)

subsection \<open>Facts about the order of events\<close>

lemma before_take: "before a b xs \<Longrightarrow> before a b (take k xs)"
  by (induction xs arbitrary: k) (auto simp: take_Cons split: nat.splits)

lemma before_append: "before a b xs \<Longrightarrow> a \<in> set xs \<Longrightarrow> before a b (xs @ ys)"
  by (induction xs) auto

lemma startup_before:
  "before (Call_signal SIGINT Signal_handler) (Call_QApplication argv) (startup_events argv)"
  "before (Call_setAttribute AA_ShareOpenGLContexts) (Call_QApplication argv) (startup_events argv)"
  "before (Call_QApplication argv) Call_MixamoDownloaderUI (startup_events argv)"
  "before Call_MixamoDownloaderUI Call_show (startup_events argv)"
  "before Call_show Call_exec (startup_events argv)"
  by (simp_all add: startup_events_def)

lemma startup_members:
  "Call_signal SIGINT Signal_handler \<in> set (startup_events argv)"
  "Call_setAttribute AA_ShareOpenGLContexts \<in> set (startup_events argv)"
  "Call_QApplication argv \<in> set (startup_events argv)"
  "Call_MixamoDownloaderUI \<in> set (startup_events argv)"
  "Call_show \<in> set (startup_events argv)"
  by (simp_all add: startup_events_def)

lemma trace_shape:
  "(\<exists>k. trace (snd (run_main argv env h0)) = take k (startup_events argv)) \<or>
   (\<exists>rest. trace (snd (run_main argv env h0)) = startup_events argv @ rest)"
  by (simp add: run_main_eq split: option.splits loop_outcome.splits exn.splits) blast

lemma before_run_main:
  assumes "before a b (startup_events argv)" and "a \<in> set (startup_events argv)"
  shows "before a b (trace (snd (run_main argv env h0)))"
  using trace_shape [of argv env h0] assms
  by (auto simp: before_take before_append)

lemma filter_take_startup:
  "filter installs_handler (take (Suc (Suc k)) (startup_events argv)) =
     [Call_signal SIGINT Signal_handler]"
proof -
  have "take (Suc (Suc k)) (startup_events argv) =
      Call_signal SIGINT Signal_handler # take (Suc k) (tl (startup_events argv))"
    by (simp add: startup_events_def)
  moreover have "filter installs_handler (tl (startup_events argv)) = []"
    by (simp add: startup_events_def)
  then have "filter installs_handler (take (Suc k) (tl (startup_events argv))) = []"
    by (metis filter_False filter_empty_conv in_set_takeD)
  ultimately show ?thesis by simp
qed

lemma erase_startup: "map erase_argv (startup_events argv) = startup_events []"
  by (simp add: startup_events_def erase_argv_def)

lemma argv_in_trace:
  "Call_QApplication a \<in> set (trace (snd (run_main argv env h0))) \<Longrightarrow> a = argv"
  by (simp add: run_main_eq cleanup_events_no_argv startup_events_def
      split: option.splits loop_outcome.splits exn.splits if_splits prod.splits)
    (auto dest: in_set_takeD)

lemma run_part_000_eq:
  assumes "bootstrap_ok argv env" and "exec_result env = LoopReturns n"
  shows "run_part_000 argv env h0 =
     (NormalExit n,
      \<lparr>trace = shared_events argv @ [Call_del ''md'', Call_del ''app'', Call_sys_exit n],
       sigtab = h0\<rparr>)"
proof -
  have "part_000 argv env (init h0) =
      (Raise (SystemExit n),
       (init h0)\<lparr>trace := trace (init h0) @ shared_events argv @
          [Call_del ''md'', Call_del ''app'', Call_sys_exit n]\<rparr>)"
    using assms
    by (simp add: part_000_def bootstrap_ok_def call_def then_py_def bind_py_def ret_def
        app_exec_def del_def sys_exit_def emit_def shared_events_def)
  then show ?thesis
    by (simp add: run_part_000_def run_script_def init_def)
qed

section \<open>The claims\<close>

text \<open>
  Claim C1. Whatever signal number and frame it is called with, \<^verbatim>\<open>signal_handler\<close>
  stops the process by \<^verbatim>\<open>os._exit(0)\<close>. Before that call it only prints its message:
  the events it adds are the print and the forced exit, so there is no browser teardown
  and no interpreter shutdown, and the table of signal handlers is left as it was.
\<close>

theorem signal_handler_forces_exit_0:
  "signal_handler sg fr s =
     (Stop (ForcedExit 0), s\<lparr>trace := trace s @ [Call_print interrupt_message, Call_os_exit 0]\<rparr>)"
  by (simp add: signal_handler_def then_py_def bind_py_def print_def os_exit_def emit_def)

text \<open>
  Claim C2, as stated, fails: not every path of the entry point ends in \<^verbatim>\<open>os._exit\<close>.
  The handler of line 40 names \<^verbatim>\<open>KeyboardInterrupt\<close> only, so another exception leaving
  \<^verbatim>\<open>app.exec_()\<close> is uncaught; and the calls of lines 23 to 35 stand outside every
  \<^verbatim>\<open>try\<close>, so an exception of the window's constructor is uncaught too. In both runs
  the interpreter shuts down normally after the traceback and \<^verbatim>\<open>os._exit\<close> is never called.
\<close>

theorem main_not_always_forced_exit:
  "fst (run_main script_name (plain_env (LoopRaises (Exception ''RuntimeError''))) fresh_sigtab)
     = Uncaught (Exception ''RuntimeError'') \<and>
   \<not> forced
     (fst (run_main script_name (plain_env (LoopRaises (Exception ''RuntimeError''))) fresh_sigtab)) \<and>
   fst (run_main script_name (broken_window_env (LoopReturns 0)) fresh_sigtab)
     = Uncaught (Exception ''RuntimeError'') \<and>
   \<not> forced (fst (run_main script_name (broken_window_env (LoopReturns 0)) fresh_sigtab))"
  by (simp add: run_main_eq bootstrap_outcomes_def plain_env_def broken_window_env_def)

text \<open>
  Claim C2, amended. When every call before the loop returns, the run ends by
  \<^verbatim>\<open>os._exit\<close> exactly when the loop returns or is interrupted: with the loop's return
  value when \<^verbatim>\<open>app.exec_()\<close> returns, and with 0 when SIGINT arrives during the loop
  (the installed handler runs) or \<^verbatim>\<open>KeyboardInterrupt\<close> leaves the loop. Any other
  exception leaving the loop reaches the top level, and so does the exception of a call
  before the loop: those runs do not end by a forced exit.
\<close>

theorem main_forced_exit_after_loop:
  "(bootstrap_ok argv env \<longrightarrow>
      fst (run_main argv env h0) =
        (case exec_result env of
           LoopReturns n \<Rightarrow> ForcedExit n
         | LoopSigint fr rest \<Rightarrow> ForcedExit 0
         | LoopRaises KeyboardInterrupt \<Rightarrow> ForcedExit 0
         | LoopRaises (SystemExit n) \<Rightarrow> NormalExit n
         | LoopRaises (Exception c) \<Rightarrow> Uncaught (Exception c))) \<and>
   (\<not> bootstrap_ok argv env \<longrightarrow> \<not> forced (fst (run_main argv env h0)))"
  by (simp add: run_main_eq bootstrap_ok_iff split: option.splits loop_outcome.splits exn.splits)

theorem main_forced_exit_after_loop_witness:
  "bootstrap_ok script_name (plain_env (LoopReturns 3)) \<and>
   fst (run_main script_name (plain_env (LoopReturns 3)) fresh_sigtab) = ForcedExit 3 \<and>
   bootstrap_ok script_name (plain_env (LoopSigint 7 (LoopReturns 3))) \<and>
   fst (run_main script_name (plain_env (LoopSigint 7 (LoopReturns 3))) fresh_sigtab) = ForcedExit 0 \<and>
   \<not> bootstrap_ok script_name (broken_window_env (LoopReturns 3)) \<and>
   \<not> forced (fst (run_main script_name (broken_window_env (LoopReturns 3)) fresh_sigtab))"
proof -
  have ok: "bootstrap_ok script_name (plain_env lo)" for lo
    by (simp add: bootstrap_ok_def plain_env_def)
  have bad: "\<not> bootstrap_ok script_name (broken_window_env lo)" for lo
    by (simp add: bootstrap_ok_def plain_env_def broken_window_env_def)
  show ?thesis
    using ok bad
      main_forced_exit_after_loop [of script_name "plain_env (LoopReturns 3)" fresh_sigtab]
      main_forced_exit_after_loop [of script_name "plain_env (LoopSigint 7 (LoopReturns 3))" fresh_sigtab]
      main_forced_exit_after_loop [of script_name "broken_window_env (LoopReturns 3)" fresh_sigtab]
    by (simp add: plain_env_def)
qed

text \<open>
  Claim C3, as stated, fails: \<^verbatim>\<open>sys.argv\<close> is handed to \<^verbatim>\<open>QApplication\<close> (line 25), so two
  runs that differ only in their arguments make different calls into Qt, which reads
  options such as \<^verbatim>\<open>-style\<close> from that list.
\<close>

theorem main_trace_depends_on_argv:
  "trace (snd (run_main [''main.pyw''] (plain_env (LoopReturns 0)) fresh_sigtab)) \<noteq>
   trace (snd (run_main [''main.pyw'', ''-style'', ''fusion''] (plain_env (LoopReturns 0)) fresh_sigtab))"
  by (simp add: run_main_eq bootstrap_outcomes_def plain_env_def startup_events_def)

text \<open>
  Claim C3, amended. The entry point does not read its arguments itself: the only call
  that carries an argument vector is \<^verbatim>\<open>QApplication\<close>, and it carries \<^verbatim>\<open>sys.argv\<close>
  unchanged. For two argument vectors to which \<^verbatim>\<open>QApplication\<close> responds in the same way,
  the two runs end in the same way with the same exit status, leave the same table of
  signal handlers, and make the same calls once the vector passed to \<^verbatim>\<open>QApplication\<close>
  is blanked.
\<close>

theorem main_argv_reaches_only_QApplication:
  "(\<forall>a. Call_QApplication a \<in> set (trace (snd (run_main argv1 env h0))) \<longrightarrow> a = argv1) \<and>
   (QApplication_result env argv1 = QApplication_result env argv2 \<longrightarrow>
      fst (run_main argv1 env h0) = fst (run_main argv2 env h0) \<and>
      map erase_argv (trace (snd (run_main argv1 env h0))) =
        map erase_argv (trace (snd (run_main argv2 env h0))) \<and>
      sigtab (snd (run_main argv1 env h0)) = sigtab (snd (run_main argv2 env h0)))"
proof -
  have "fst (run_main argv1 env h0) = fst (run_main argv2 env h0) \<and>
      map erase_argv (trace (snd (run_main argv1 env h0))) =
        map erase_argv (trace (snd (run_main argv2 env h0))) \<and>
      sigtab (snd (run_main argv1 env h0)) = sigtab (snd (run_main argv2 env h0))"
    if "QApplication_result env argv1 = QApplication_result env argv2"
    using that
    by (simp add: run_main_eq outcomes_cong [of env argv1 argv2] erase_startup
        take_map [symmetric] split: option.splits loop_outcome.splits exn.splits)
  then show ?thesis
    by (auto dest: argv_in_trace)
qed

theorem main_argv_reaches_only_QApplication_witness:
  "Call_QApplication [''main.pyw'', ''-style'', ''fusion''] \<in> set (trace (snd
     (run_main [''main.pyw'', ''-style'', ''fusion''] (plain_env (LoopReturns 4)) fresh_sigtab))) \<and>
   QApplication_result (plain_env (LoopReturns 4)) [''main.pyw'', ''-style'', ''fusion''] =
     QApplication_result (plain_env (LoopReturns 4)) [''main.pyw''] \<and>
   fst (run_main [''main.pyw'', ''-style'', ''fusion''] (plain_env (LoopReturns 4)) fresh_sigtab) =
     fst (run_main [''main.pyw''] (plain_env (LoopReturns 4)) fresh_sigtab) \<and>
   map erase_argv (trace (snd
     (run_main [''main.pyw'', ''-style'', ''fusion''] (plain_env (LoopReturns 4)) fresh_sigtab))) =
     map erase_argv (trace (snd (run_main [''main.pyw''] (plain_env (LoopReturns 4)) fresh_sigtab)))"
proof -
  have same: "QApplication_result (plain_env (LoopReturns 4)) [''main.pyw'', ''-style'', ''fusion''] =
      QApplication_result (plain_env (LoopReturns 4)) [''main.pyw'']"
    by (simp add: plain_env_def)
  have mem: "Call_QApplication [''main.pyw'', ''-style'', ''fusion''] \<in> set (trace (snd
      (run_main [''main.pyw'', ''-style'', ''fusion''] (plain_env (LoopReturns 4)) fresh_sigtab)))"
    by (simp add: run_main_eq bootstrap_outcomes_def plain_env_def startup_events_def)
  show ?thesis
    using same mem
      main_argv_reaches_only_QApplication [of "[''main.pyw'', ''-style'', ''fusion'']"
        "plain_env (LoopReturns 4)" fresh_sigtab "[''main.pyw'']"]
    by blast
qed

text \<open>
  Claim C4. In every run of \<^verbatim>\<open>main.pyw\<close>, whatever Qt and the window do, exactly one
  call installs a signal handler, and it installs \<^verbatim>\<open>signal_handler\<close> for SIGINT; the
  table of handlers the run leaves is the initial one with that single entry replaced,
  so the entry of every other signal is what it was.
\<close>

theorem main_installs_only_sigint_handler:
  "filter installs_handler (trace (snd (run_main argv env h0))) =
     [Call_signal SIGINT Signal_handler] \<and>
   sigtab (snd (run_main argv env h0)) = h0(SIGINT := Signal_handler) \<and>
   (\<forall>sg. sg \<noteq> SIGINT \<longrightarrow> sigtab (snd (run_main argv env h0)) sg = h0 sg)"
proof -
  have full: "filter installs_handler (startup_events argv) = [Call_signal SIGINT Signal_handler]"
    by (simp add: startup_events_def)
  have tab: "sigtab (snd (run_main argv env h0)) = h0(SIGINT := Signal_handler)"
    by (simp add: run_main_eq split: option.splits loop_outcome.splits exn.splits)
  have tr: "filter installs_handler (trace (snd (run_main argv env h0))) =
      [Call_signal SIGINT Signal_handler]"
    by (simp add: run_main_eq filter_take_startup full cleanup_events_no_handler
        split: option.splits loop_outcome.splits exn.splits)
  from tab tr show ?thesis by simp
qed

theorem main_installs_only_sigint_handler_witness:
  "(15::nat) \<noteq> SIGINT \<and>
   sigtab (snd (run_main script_name (plain_env (LoopReturns 0)) fresh_sigtab)) 15 = SIG_DFL \<and>
   sigtab (snd (run_main script_name (plain_env (LoopReturns 0)) fresh_sigtab)) SIGINT =
     Signal_handler"
proof -
  have ne: "(15::nat) \<noteq> SIGINT"
    by (simp add: SIGINT_def)
  show ?thesis
    using ne
      main_installs_only_sigint_handler [of script_name "plain_env (LoopReturns 0)" fresh_sigtab]
    by (simp add: fresh_sigtab_def)
qed

text \<open>
  Claim C5. In every run of \<^verbatim>\<open>main.pyw\<close> the steps keep their order: the SIGINT handler
  is installed and \<^verbatim>\<open>AA_ShareOpenGLContexts\<close> is set before \<^verbatim>\<open>QApplication\<close> is
  created, \<^verbatim>\<open>QApplication\<close> is created before \<^verbatim>\<open>MixamoDownloaderUI\<close> is instantiated,
  the window is instantiated before it is shown, and it is shown before \<^verbatim>\<open>app.exec_()\<close>
  starts. When every call before the loop returns, all of these steps occur: the run
  begins with the ten calls of lines 20 to 39, in that order.
\<close>

theorem main_bootstrap_order:
  "before (Call_signal SIGINT Signal_handler) (Call_QApplication argv)
     (trace (snd (run_main argv env h0))) \<and>
   before (Call_setAttribute AA_ShareOpenGLContexts) (Call_QApplication argv)
     (trace (snd (run_main argv env h0))) \<and>
   before (Call_QApplication argv) Call_MixamoDownloaderUI
     (trace (snd (run_main argv env h0))) \<and>
   before Call_MixamoDownloaderUI Call_show (trace (snd (run_main argv env h0))) \<and>
   before Call_show Call_exec (trace (snd (run_main argv env h0))) \<and>
   (bootstrap_ok argv env \<longrightarrow>
      take 10 (trace (snd (run_main argv env h0))) = startup_events argv)"
proof -
  have "bootstrap_ok argv env \<longrightarrow>
      take 10 (trace (snd (run_main argv env h0))) = startup_events argv"
    by (simp add: run_main_eq bootstrap_ok_iff startup_events_def
        split: loop_outcome.splits exn.splits)
  then show ?thesis
    by (simp add: before_run_main startup_before startup_members)
qed

theorem main_bootstrap_order_witness:
  "bootstrap_ok script_name (plain_env (LoopReturns 0)) \<and>
   take 10 (trace (snd (run_main script_name (plain_env (LoopReturns 0)) fresh_sigtab))) =
     [Call_signal SIGINT Signal_handler,
      Call_setAttribute AA_ShareOpenGLContexts,
      Call_QApplication script_name,
      Call_setQuitOnLastWindowClosed True,
      Call_MixamoDownloaderUI,
      Call_show,
      Call_QTimer,
      Call_connect,
      Call_start 100,
      Call_exec]"
proof -
  have ok: "bootstrap_ok script_name (plain_env (LoopReturns 0))"
    by (simp add: bootstrap_ok_def plain_env_def)
  show ?thesis
    using ok main_bootstrap_order [of script_name "plain_env (LoopReturns 0)" fresh_sigtab]
    by (simp add: startup_events_def)
qed

text \<open>
  Claim C6. When every call before the loop has returned and \<^verbatim>\<open>KeyboardInterrupt\<close> leaves
  \<^verbatim>\<open>app.exec_()\<close>, the run catches it: it prints the message of line 41, then runs the
  code after the loop with exit code 0, and ends by \<^verbatim>\<open>os._exit(0)\<close>, so the interrupt
  is not uncaught. The calls of the run are the ten start-up calls, the print, the calls
  of the cleanup as far as it gets (\<^verbatim>\<open>hasattr\<close> always; the truth of \<^verbatim>\<open>md.browser\<close> when
  \<^verbatim>\<open>hasattr\<close> gave true; the second read when the truth test gave true too;
  \<^verbatim>\<open>deleteLater()\<close> when that read returned), and last \<^verbatim>\<open>os._exit(0)\<close>. In particular,
  when the window has a truthy browser that can be read, \<^verbatim>\<open>deleteLater()\<close> is called on it
  before the forced exit.
\<close>

theorem main_catches_KeyboardInterrupt:
  "bootstrap_ok argv env \<Longrightarrow> exec_result env = LoopRaises KeyboardInterrupt \<Longrightarrow>
   fst (run_main argv env h0) = ForcedExit 0 \<and>
   trace (snd (run_main argv env h0)) =
     startup_events argv @ [Call_print keyboard_message] @
     trace (snd (post_loop env 0 (init h0))) \<and>
   trace (snd (run_main argv env h0)) =
     startup_events argv @ [Call_print keyboard_message] @
     (case hasattr_browser env of
        Raises e \<Rightarrow> [Call_hasattr ''browser'']
      | Returns has \<Rightarrow>
          if \<not> has then [Call_hasattr ''browser'']
          else (case browser_truth env of
            Raises e \<Rightarrow> [Call_hasattr ''browser'', Call_truth ''browser'']
          | Returns truthy \<Rightarrow>
              if \<not> truthy then [Call_hasattr ''browser'', Call_truth ''browser'']
              else (case browser_result env of
                Raises e \<Rightarrow>
                  [Call_hasattr ''browser'', Call_truth ''browser'', Call_getattr ''browser'']
              | Returns u \<Rightarrow>
                  [Call_hasattr ''browser'', Call_truth ''browser'', Call_getattr ''browser'',
                   Call_deleteLater]))) @
     [Call_os_exit 0] \<and>
   (hasattr_browser env = Returns True \<and> browser_truth env = Returns True \<and>
    browser_result env = Returns () \<longrightarrow>
      trace (snd (run_main argv env h0)) =
        startup_events argv @
        [Call_print keyboard_message, Call_hasattr ''browser'', Call_truth ''browser'',
         Call_getattr ''browser'', Call_deleteLater, Call_os_exit 0] \<and>
      Call_deleteLater \<in> set (trace (snd (run_main argv env h0)))) \<and>
   Call_hasattr ''browser'' \<in> set (trace (snd (run_main argv env h0))) \<and>
   last (trace (snd (run_main argv env h0))) = Call_os_exit 0"
proof -
  assume ok: "bootstrap_ok argv env" and lo: "exec_result env = LoopRaises KeyboardInterrupt"
  have run: "run_main argv env h0 =
      (ForcedExit 0,
       \<lparr>trace = startup_events argv @ [Call_print keyboard_message] @
          cleanup_events env @ [Call_os_exit 0],
        sigtab = h0(SIGINT := Signal_handler)\<rparr>)"
    using ok lo by (simp add: run_main_eq bootstrap_ok_iff)
  have post: "trace (snd (post_loop env 0 (init h0))) = cleanup_events env @ [Call_os_exit 0]"
    by (simp add: post_loop_eq init_def)
  have has: "Call_hasattr ''browser'' \<in> set (cleanup_events env)"
    by (simp add: cleanup_events_eq split: outcome.splits)
  have full: "cleanup_events env =
      [Call_hasattr ''browser'', Call_truth ''browser'', Call_getattr ''browser'',
       Call_deleteLater]"
    if "hasattr_browser env = Returns True" "browser_truth env = Returns True"
      "browser_result env = Returns ()"
    using that by (simp add: cleanup_events_eq)
  show ?thesis
    unfolding run post
    using has full
    by (simp add: cleanup_events_eq [symmetric])
qed

theorem main_catches_KeyboardInterrupt_witness:
  "bootstrap_ok script_name (plain_env (LoopRaises KeyboardInterrupt)) \<and>
   exec_result (plain_env (LoopRaises KeyboardInterrupt)) = LoopRaises KeyboardInterrupt \<and>
   hasattr_browser (plain_env (LoopRaises KeyboardInterrupt)) = Returns True \<and>
   browser_truth (plain_env (LoopRaises KeyboardInterrupt)) = Returns True \<and>
   browser_result (plain_env (LoopRaises KeyboardInterrupt)) = Returns () \<and>
   fst (run_main script_name (plain_env (LoopRaises KeyboardInterrupt)) fresh_sigtab) =
     ForcedExit 0 \<and>
   trace (snd (run_main script_name (plain_env (LoopRaises KeyboardInterrupt)) fresh_sigtab)) =
     startup_events script_name @
     [Call_print keyboard_message, Call_hasattr ''browser'', Call_truth ''browser'',
      Call_getattr ''browser'', Call_deleteLater, Call_os_exit 0] \<and>
   Call_deleteLater \<in> set (trace (snd
     (run_main script_name (plain_env (LoopRaises KeyboardInterrupt)) fresh_sigtab))) \<and>
   last (trace (snd (run_main script_name (plain_env (LoopRaises KeyboardInterrupt)) fresh_sigtab)))
     = Call_os_exit 0"
proof -
  have ok: "bootstrap_ok script_name (plain_env (LoopRaises KeyboardInterrupt))"
    by (simp add: bootstrap_ok_def plain_env_def)
  have lo: "exec_result (plain_env (LoopRaises KeyboardInterrupt)) = LoopRaises KeyboardInterrupt"
    by (simp add: plain_env_def)
  have has: "hasattr_browser (plain_env (LoopRaises KeyboardInterrupt)) = Returns True"
    by (simp add: plain_env_def)
  have truthy: "browser_truth (plain_env (LoopRaises KeyboardInterrupt)) = Returns True"
    by (simp add: plain_env_def)
  have rd: "browser_result (plain_env (LoopRaises KeyboardInterrupt)) = Returns ()"
    by (simp add: plain_env_def)
  show ?thesis
    using ok lo has truthy rd main_catches_KeyboardInterrupt [OF ok lo, of fresh_sigtab]
    by blast
qed

text \<open>
  Claim C7. The code after the loop (lines 45 to 52) ends by \<^verbatim>\<open>os._exit\<close> with the exit
  code it was given, whatever the steps of the cleanup do: an exception of \<^verbatim>\<open>hasattr\<close>,
  of either read of \<^verbatim>\<open>md.browser\<close> or of \<^verbatim>\<open>deleteLater()\<close> is swallowed by the bare
  \<^verbatim>\<open>except\<close>. The browser is read again and \<^verbatim>\<open>deleteLater()\<close> is called only when
  \<^verbatim>\<open>hasattr(md, 'browser')\<close> and the truth of \<^verbatim>\<open>md.browser\<close> both gave true. In a run of
  \<^verbatim>\<open>main.pyw\<close> whose loop returns \<open>n\<close>, the forced exit therefore carries \<open>n\<close>.
\<close>

theorem post_loop_swallows_cleanup_errors:
  "fst (post_loop env exit_code s) = Stop (ForcedExit exit_code) \<and>
   trace (snd (post_loop env exit_code s)) =
     trace s @ cleanup_events env @ [Call_os_exit exit_code] \<and>
   (Call_getattr ''browser'' \<in> set (cleanup_events env) \<or>
    Call_deleteLater \<in> set (cleanup_events env) \<longrightarrow>
      hasattr_browser env = Returns True \<and> browser_truth env = Returns True) \<and>
   (bootstrap_ok argv env \<and> exec_result env = LoopReturns n \<longrightarrow>
      fst (run_main argv env h0) = ForcedExit n \<and>
      last (trace (snd (run_main argv env h0))) = Call_os_exit n)"
proof -
  have "fst (post_loop env exit_code s) = Stop (ForcedExit exit_code)"
    by (simp add: post_loop_eq)
  moreover have "trace (snd (post_loop env exit_code s)) =
      trace s @ cleanup_events env @ [Call_os_exit exit_code]"
    by (simp add: post_loop_eq)
  moreover have "Call_getattr ''browser'' \<in> set (cleanup_events env) \<or>
      Call_deleteLater \<in> set (cleanup_events env) \<longrightarrow>
      hasattr_browser env = Returns True \<and> browser_truth env = Returns True"
    by (simp add: cleanup_events_eq split: outcome.splits)
  moreover have "bootstrap_ok argv env \<and> exec_result env = LoopReturns n \<longrightarrow>
      fst (run_main argv env h0) = ForcedExit n \<and>
      last (trace (snd (run_main argv env h0))) = Call_os_exit n"
    by (simp add: run_main_eq bootstrap_ok_iff)
  ultimately show ?thesis by blast
qed

theorem post_loop_swallows_cleanup_errors_witness:
  "deleteLater_result (stale_browser_env (LoopReturns 3)) = Raises (Exception ''RuntimeError'') \<and>
   Call_deleteLater \<in> set (cleanup_events (stale_browser_env (LoopReturns 3))) \<and>
   hasattr_browser (stale_browser_env (LoopReturns 3)) = Returns True \<and>
   browser_truth (stale_browser_env (LoopReturns 3)) = Returns True \<and>
   bootstrap_ok script_name (stale_browser_env (LoopReturns 3)) \<and>
   exec_result (stale_browser_env (LoopReturns 3)) = LoopReturns 3 \<and>
   fst (run_main script_name (stale_browser_env (LoopReturns 3)) fresh_sigtab) = ForcedExit 3"
proof -
  have raises: "deleteLater_result (stale_browser_env (LoopReturns 3)) =
      Raises (Exception ''RuntimeError'')"
    by (simp add: stale_browser_env_def)
  have called: "Call_deleteLater \<in> set (cleanup_events (stale_browser_env (LoopReturns 3)))"
    by (simp add: cleanup_events_eq stale_browser_env_def plain_env_def)
  have ok: "bootstrap_ok script_name (stale_browser_env (LoopReturns 3))"
    by (simp add: bootstrap_ok_def stale_browser_env_def plain_env_def)
  have lo: "exec_result (stale_browser_env (LoopReturns 3)) = LoopReturns 3"
    by (simp add: stale_browser_env_def plain_env_def)
  show ?thesis
    using raises called ok lo
      post_loop_swallows_cleanup_errors [of "stale_browser_env (LoopReturns 3)" 3
        "init fresh_sigtab" script_name 3 fresh_sigtab]
    by blast
qed

text \<open>
  Claim C8. On normal termination (every call before the loop returns and the loop
  returns \<open>n\<close>) the two variants make the same shared steps in the same order: both set
  \<^verbatim>\<open>AA_ShareOpenGLContexts\<close>, create \<^verbatim>\<open>QApplication\<close> with \<^verbatim>\<open>sys.argv\<close>, enable
  quit-on-last-window-closed, instantiate and show \<^verbatim>\<open>MixamoDownloaderUI\<close> and run the
  event loop; and both end the process with exit status \<open>n\<close>, \<^verbatim>\<open>main.pyw\<close> by
  \<^verbatim>\<open>os._exit(n)\<close> and the earlier variant by \<^verbatim>\<open>sys.exit(n)\<close>.
\<close>

theorem variants_agree_on_normal_termination:
  "bootstrap_ok argv env \<Longrightarrow> exec_result env = LoopReturns n \<Longrightarrow>
   filter shared_step (trace (snd (run_main argv env h0))) = shared_events argv \<and>
   filter shared_step (trace (snd (run_part_000 argv env h0))) = shared_events argv \<and>
   exit_status (fst (run_main argv env h0)) = Some n \<and>
   exit_status (fst (run_part_000 argv env h0)) = Some n \<and>
   fst (run_main argv env h0) = ForcedExit n \<and>
   fst (run_part_000 argv env h0) = NormalExit n"
proof -
  assume ok: "bootstrap_ok argv env" and lo: "exec_result env = LoopReturns n"
  have main: "run_main argv env h0 =
      (ForcedExit n,
       \<lparr>trace = startup_events argv @ cleanup_events env @ [Call_os_exit n],
        sigtab = h0(SIGINT := Signal_handler)\<rparr>)"
    using ok lo by (simp add: run_main_eq bootstrap_ok_iff)
  have shared_main: "filter shared_step (startup_events argv) = shared_events argv"
    by (simp add: startup_events_def shared_events_def)
  have shared_part: "filter shared_step (shared_events argv) = shared_events argv"
    by (simp add: shared_events_def)
  show ?thesis
    by (simp add: main run_part_000_eq [OF ok lo] shared_main shared_part
        cleanup_events_not_shared)
qed

theorem variants_agree_on_normal_termination_witness:
  "bootstrap_ok script_name (plain_env (LoopReturns 5)) \<and>
   exec_result (plain_env (LoopReturns 5)) = LoopReturns 5 \<and>
   filter shared_step (trace (snd (run_main script_name (plain_env (LoopReturns 5)) fresh_sigtab)))
     = filter shared_step
         (trace (snd (run_part_000 script_name (plain_env (LoopReturns 5)) fresh_sigtab))) \<and>
   exit_status (fst (run_main script_name (plain_env (LoopReturns 5)) fresh_sigtab)) = Some 5 \<and>
   exit_status (fst (run_part_000 script_name (plain_env (LoopReturns 5)) fresh_sigtab)) = Some 5"
proof -
  have ok: "bootstrap_ok script_name (plain_env (LoopReturns 5))"
    by (simp add: bootstrap_ok_def plain_env_def)
  have lo: "exec_result (plain_env (LoopReturns 5)) = LoopReturns 5"
    by (simp add: plain_env_def)
  show ?thesis
    using ok lo variants_agree_on_normal_termination [OF ok lo, of fresh_sigtab]
    by simp
qed


end
